theory Spec2Isabelle
  imports Complex_Main "HOL-Library.Char_ord" "HOL-Library.List_Lexorder" "HOL-Library.AList"
begin

section \<open>JavaScript values\<close>

text \<open>
  The request handlers of \<^verbatim>\<open>src/routes/api/weights/+server.js\<close> receive whatever
  \<^verbatim>\<open>request.json()\<close> produced, so the model needs the values of JavaScript: a number is a
  double (a finite value, one of the two infinities, or NaN; the sign of zero plays no role
  here), an object is the list of its own properties in insertion order.
\<close>

datatype jsnum = Num real | PosInfinity | NegInfinity | NaN

datatype jsval =
    JUndefined
  | JNull
  | JBool bool
  | JNumber jsnum
  | JString string
  | JArray "jsval list"
  | JObject "(string \<times> jsval) list"

text \<open>The operator \<^verbatim>\<open>typeof\<close>.\<close>

fun typeof :: "jsval \<Rightarrow> string" where
  "typeof JUndefined = ''undefined''"
| "typeof JNull = ''object''"
| "typeof (JBool b) = ''boolean''"
| "typeof (JNumber n) = ''number''"
| "typeof (JString s) = ''string''"
| "typeof (JArray xs) = ''object''"
| "typeof (JObject kvs) = ''object''"

text \<open>
  \<^verbatim>\<open>isNaN(v)\<close>. The handlers only evaluate it to the right of
  \<^verbatim>\<open>typeof v !== 'number' ||\<close>, that is on a number, where no coercion happens; the last
  equation is never reached from them.
\<close>

fun isNaN :: "jsval \<Rightarrow> bool" where
  "isNaN (JNumber n) = (n = NaN)"
| "isNaN v = False"

text \<open>The number a value of type number carries (NaN stands in for the other types).\<close>

fun number_value :: "jsval \<Rightarrow> jsnum" where
  "number_value (JNumber n) = n"
| "number_value v = NaN"

text \<open>
  Truthiness, as \<^verbatim>\<open>!date\<close> tests it: the falsy values are undefined, null, false, zero, NaN
  and the empty string.
\<close>

fun truthy :: "jsval \<Rightarrow> bool" where
  "truthy JUndefined = False"
| "truthy JNull = False"
| "truthy (JBool b) = b"
| "truthy (JNumber n) = (n \<noteq> Num 0 \<and> n \<noteq> NaN)"
| "truthy (JString s) = (s \<noteq> [])"
| "truthy (JArray xs) = True"
| "truthy (JObject kvs) = True"

text \<open>
  Strict equality \<^verbatim>\<open>===\<close>. A primitive equals a primitive of the same type and value, NaN
  equals nothing, and an array or object is equal only to itself by reference: a value that
  was just parsed or built is a reference nothing else holds, so the result is False.
\<close>

fun strict_eq :: "jsval \<Rightarrow> jsval \<Rightarrow> bool" where
  "strict_eq JUndefined JUndefined = True"
| "strict_eq JNull JNull = True"
| "strict_eq (JBool a) (JBool b) = (a = b)"
| "strict_eq (JNumber a) (JNumber b) = (a = b \<and> a \<noteq> NaN)"
| "strict_eq (JString a) (JString b) = (a = b)"
| "strict_eq a b = False"

text \<open>Reading a property of an object: an absent property is undefined.\<close>

definition get_prop :: "jsval \<Rightarrow> string \<Rightarrow> jsval" where
  "get_prop v k =
     (case v of
        JObject kvs \<Rightarrow> (case map_of kvs k of Some x \<Rightarrow> x | None \<Rightarrow> JUndefined)
      | _ \<Rightarrow> JUndefined)"

text \<open>
  The destructuring \<^verbatim>\<open>const { a, b } = value\<close>: it throws a TypeError on null and
  undefined (\<open>None\<close>), and reads the named properties otherwise. None of the four names the
  handlers read (weight, date, id, deleteAll) is a property of a boolean, a number, a
  string or an array, so they come out undefined there.
\<close>

fun destructure :: "jsval \<Rightarrow> (string \<Rightarrow> jsval) option" where
  "destructure JUndefined = None"
| "destructure JNull = None"
| "destructure v = Some (get_prop v)"

text \<open>
  The object spread \<^verbatim>\<open>{ ...base, ...extra }\<close>: the properties of \<open>extra\<close> are assigned
  in order; a name already present keeps its place and takes the new value.
\<close>

definition spread :: "(string \<times> jsval) list \<Rightarrow> jsval \<Rightarrow> (string \<times> jsval) list" where
  "spread base extra =
     (case extra of
        JObject kvs \<Rightarrow> fold (\<lambda>(k, v). AList.update k v) kvs base
      | _ \<Rightarrow> base)"

section \<open>The table \<^verbatim>\<open>weights\<close>\<close>

text \<open>
  \<^verbatim>\<open>src/lib/db.js\<close>, lines 17 to 24:
  \<^verbatim>\<open>
  CREATE TABLE IF NOT EXISTS weights (
    id INTEGER PRIMARY KEY AUTOINCREMENT,
    weight REAL NOT NULL,
    date TEXT NOT NULL UNIQUE,
    created_at TEXT DEFAULT CURRENT_TIMESTAMP)
  \<close>
  A row is a record of the four columns. The state of the database is the list of rows in
  insertion order together with the counter that AUTOINCREMENT keeps (the largest rowid
  ever handed out), which survives deletions. A date is the byte string SQLite stores; the
  order on \<open>string\<close> is the bytewise lexicographic one, which is what the BINARY collation
  of a TEXT column compares by.

  Failures of the environment (an unreadable file, a full disk, a rowid beyond the 64-bit
  range after more than \<open>9 * 10^18\<close> insertions) are not part of the model.
\<close>

record row =
  row_id :: int
  weight :: jsnum
  date :: string
  created_at :: string

record db =
  rows :: "row list"
  seq :: int

definition empty_db :: db where
  "empty_db = \<lparr>rows = [], seq = 0\<rparr>"

text \<open>What a statement can throw: an \<^verbatim>\<open>SqliteError\<close> with its \<^verbatim>\<open>code\<close>.\<close>

datatype error = SqliteError string

subsection \<open>The five statements\<close>

text \<open>
  \<^verbatim>\<open>INSERT INTO weights (weight, date) VALUES (?, ?)\<close> with a number and a text bound.
  SQLite stores a NaN as NULL, so the NOT NULL constraint of \<open>weight\<close> rejects it; NOT NULL
  is checked before UNIQUE. A failed statement changes nothing, the counter included. The
  new rowid is one more than the largest rowid ever used; \<open>created_at\<close> takes the default,
  the time of the insertion, which the caller of the model supplies as \<open>now\<close>. The result
  is \<^verbatim>\<open>lastInsertRowid\<close>.
\<close>

definition next_rowid :: "db \<Rightarrow> int" where
  "next_rowid s = fold max (map row_id (rows s)) (seq s) + 1"

definition sql_insert :: "string \<Rightarrow> jsnum \<Rightarrow> string \<Rightarrow> db \<Rightarrow> error + (int \<times> db)" where
  "sql_insert now w d s =
     (if w = NaN then Inl (SqliteError ''SQLITE_CONSTRAINT_NOTNULL'')
      else if d \<in> set (map date (rows s)) then Inl (SqliteError ''SQLITE_CONSTRAINT_UNIQUE'')
      else let i = next_rowid s in
        Inr (i, \<lparr>rows = rows s @ [\<lparr>row_id = i, weight = w, date = d, created_at = now\<rparr>],
                 seq = i\<rparr>))"

text \<open>
  \<^verbatim>\<open>UPDATE weights SET weight = ? WHERE date = ?\<close>. The constraint is only checked on a
  row that is written, so a NaN fails only when some row matches. The result is
  \<^verbatim>\<open>changes\<close>, the number of rows written.
\<close>

definition sql_update_by_date :: "jsnum \<Rightarrow> string \<Rightarrow> db \<Rightarrow> error + (nat \<times> db)" where
  "sql_update_by_date w d s =
     (let n = length (filter (\<lambda>r. date r = d) (rows s)) in
      if 0 < n \<and> w = NaN then Inl (SqliteError ''SQLITE_CONSTRAINT_NOTNULL'')
      else Inr (n, s\<lparr>rows := map (\<lambda>r. if date r = d then r\<lparr>weight := w\<rparr> else r) (rows s)\<rparr>))"

text \<open>
  A number bound for comparison with the integer column \<open>id\<close> matches a row when it is
  that integer; an infinity matches none, and a NaN, bound as NULL, matches none either.
\<close>

fun id_matches :: "jsnum \<Rightarrow> row \<Rightarrow> bool" where
  "id_matches (Num x) r = (x = of_int (row_id r))"
| "id_matches n r = False"

text \<open>\<^verbatim>\<open>UPDATE weights SET weight = ? WHERE id = ?\<close>\<close>

definition sql_update_by_id :: "jsnum \<Rightarrow> jsnum \<Rightarrow> db \<Rightarrow> error + (nat \<times> db)" where
  "sql_update_by_id w i s =
     (let n = length (filter (id_matches i) (rows s)) in
      if 0 < n \<and> w = NaN then Inl (SqliteError ''SQLITE_CONSTRAINT_NOTNULL'')
      else Inr (n, s\<lparr>rows := map (\<lambda>r. if id_matches i r then r\<lparr>weight := w\<rparr> else r) (rows s)\<rparr>))"

text \<open>\<^verbatim>\<open>DELETE FROM weights WHERE id = ?\<close>\<close>

definition sql_delete_by_id :: "jsnum \<Rightarrow> db \<Rightarrow> nat \<times> db" where
  "sql_delete_by_id i s =
     (length (filter (id_matches i) (rows s)),
      s\<lparr>rows := filter (\<lambda>r. \<not> id_matches i r) (rows s)\<rparr>)"

text \<open>\<^verbatim>\<open>DELETE FROM weights\<close>\<close>

definition sql_delete_all :: "db \<Rightarrow> nat \<times> db" where
  "sql_delete_all s = (length (rows s), s\<lparr>rows := []\<rparr>)"

section \<open>The functions of \<^verbatim>\<open>src/lib/db.js\<close>\<close>

text \<open>A count or rowid as the JavaScript number the driver returns.\<close>

definition js_nat :: "nat \<Rightarrow> jsval" where
  "js_nat n = JNumber (Num (of_nat n))"

definition js_int :: "int \<Rightarrow> jsval" where
  "js_int i = JNumber (Num (of_int i))"

text \<open>
  \<^verbatim>\<open>
  export function addWeight(weight, date) {
    const stmt = db.prepare('INSERT INTO weights (weight, date) VALUES (?, ?)');
    try {
      const result = stmt.run(weight, date);
      return { success: true, id: result.lastInsertRowid };
    } catch (error) {
      if (error.code === 'SQLITE_CONSTRAINT_UNIQUE') {
        const updateStmt = db.prepare('UPDATE weights SET weight = ? WHERE date = ?');
        updateStmt.run(weight, date);
        return { success: true, updated: true };
      }
      throw error;
    }
  }
  \<close>
  The comment above it gives the types: weight a number, date a string.
\<close>

definition addWeight :: "string \<Rightarrow> jsnum \<Rightarrow> string \<Rightarrow> db \<Rightarrow> error + (jsval \<times> db)" where
  "addWeight now w d s =
     (case sql_insert now w d s of
        Inr (i, s') \<Rightarrow> Inr (JObject [(''success'', JBool True), (''id'', js_int i)], s')
      | Inl err \<Rightarrow>
          if err = SqliteError ''SQLITE_CONSTRAINT_UNIQUE'' then
            (case sql_update_by_date w d s of
               Inr (n, s') \<Rightarrow> Inr (JObject [(''success'', JBool True), (''updated'', JBool True)], s')
             | Inl err' \<Rightarrow> Inl err')
          else Inl err)"

text \<open>
  \<^verbatim>\<open>SELECT id, weight, date FROM weights ORDER BY date ASC\<close>, all rows: each result row is
  the triple of the three selected columns.
\<close>

definition getAllWeights :: "db \<Rightarrow> (int \<times> jsnum \<times> string) list" where
  "getAllWeights s = map (\<lambda>r. (row_id r, weight r, date r)) (sort_key date (rows s))"

text \<open>
  \<^verbatim>\<open>SELECT * FROM weights ORDER BY date DESC LIMIT 1\<close>, read with \<^verbatim>\<open>get()\<close>: the first
  row of the result, or undefined (\<open>None\<close>) when there is none.
\<close>

definition getLatestWeight :: "db \<Rightarrow> row option" where
  "getLatestWeight s =
     (case rev (sort_key date (rows s)) of [] \<Rightarrow> None | r # rest \<Rightarrow> Some r)"

text \<open>
  \<^verbatim>\<open>
  export function updateWeight(id, weight) {
    const stmt = db.prepare('UPDATE weights SET weight = ? WHERE id = ?');
    const result = stmt.run(weight, id);
    return { success: true, changes: result.changes };
  }
  \<close>
\<close>

definition updateWeight :: "jsnum \<Rightarrow> jsnum \<Rightarrow> db \<Rightarrow> error + (jsval \<times> db)" where
  "updateWeight i w s =
     (case sql_update_by_id w i s of
        Inl err \<Rightarrow> Inl err
      | Inr (n, s') \<Rightarrow> Inr (JObject [(''success'', JBool True), (''changes'', js_nat n)], s'))"

text \<open>
  \<^verbatim>\<open>
  export function deleteWeight(id) {
    const stmt = db.prepare('DELETE FROM weights WHERE id = ?');
    const result = stmt.run(id);
    return { success: true, changes: result.changes };
  }
  \<close>
\<close>

definition deleteWeight :: "jsnum \<Rightarrow> db \<Rightarrow> jsval \<times> db" where
  "deleteWeight i s =
     (case sql_delete_by_id i s of
        (n, s') \<Rightarrow> (JObject [(''success'', JBool True), (''changes'', js_nat n)], s'))"

text \<open>
  \<^verbatim>\<open>
  export function deleteAllWeights() {
    const stmt = db.prepare('DELETE FROM weights');
    const result = stmt.run();
    return { success: true, changes: result.changes };
  }
  \<close>
\<close>

definition deleteAllWeights :: "db \<Rightarrow> jsval \<times> db" where
  "deleteAllWeights s =
     (case sql_delete_all s of
        (n, s') \<Rightarrow> (JObject [(''success'', JBool True), (''changes'', js_nat n)], s'))"

section \<open>The handlers of \<^verbatim>\<open>src/routes/api/weights/+server.js\<close>\<close>

text \<open>
  A response is what \<^verbatim>\<open>json(data, { status })\<close> builds: the status (200 when none is
  given) and the body.
\<close>

record response =
  status :: nat
  body :: jsval

definition json :: "jsval \<Rightarrow> response" where
  "json data = \<lparr>status = 200, body = data\<rparr>"

definition json_status :: "jsval \<Rightarrow> nat \<Rightarrow> response" where
  "json_status data st = \<lparr>status = st, body = data\<rparr>"

definition error_body :: "string \<Rightarrow> jsval" where
  "error_body msg = JObject [(''error'', JString msg)]"

text \<open>
  \<^verbatim>\<open>addWeight\<close> is documented for a string date, but \<^verbatim>\<open>POST\<close> passes on any truthy
  value. What the driver makes of a value that is not a string (it throws, or it binds
  something that the TEXT column stores as a text) is the driver's business and not this
  repository's, so the model takes it as the parameter \<open>drv\<close>: \<open>None\<close> when the call
  throws, the stored text otherwise. A string is bound as it is.
\<close>

definition date_param :: "(jsval \<Rightarrow> string option) \<Rightarrow> jsval \<Rightarrow> string option" where
  "date_param drv v = (case v of JString d \<Rightarrow> Some d | _ \<Rightarrow> drv v)"

text \<open>One such driver, for concrete runs: it throws on every date that is not a string.\<close>

definition strict_driver :: "jsval \<Rightarrow> string option" where
  "strict_driver v = None"

text \<open>
  A request is the outcome of \<^verbatim>\<open>await request.json()\<close>: \<open>None\<close> when the body is not
  JSON and the promise rejects, the parsed value otherwise.

  \<^verbatim>\<open>
  export async function POST({ request }) {
    try {
      const { weight, date } = await request.json();
      if (typeof weight !== 'number' || isNaN(weight)) {
        return json({ error: 'Weight must be a valid number' }, { status: 400 });
      }
      if (!date) {
        return json({ error: 'Date is required' }, { status: 400 });
      }
      const result = addWeight(weight, date);
      return json({ success: true, ...result });
    } catch (error) {
      console.error('Error adding weight:', error);
      return json({ error: 'Failed to add weight' }, { status: 500 });
    }
  }
  \<close>
\<close>

definition POST ::
  "(jsval \<Rightarrow> string option) \<Rightarrow> string \<Rightarrow> jsval option \<Rightarrow> db \<Rightarrow> response \<times> db" where
  "POST drv now request s =
     (let failed = (json_status (error_body ''Failed to add weight'') 500, s) in
      case request of
        None \<Rightarrow> failed
      | Some parsed \<Rightarrow>
         (case destructure parsed of
            None \<Rightarrow> failed
          | Some field \<Rightarrow>
             (let weight = field ''weight''; date = field ''date'' in
              if typeof weight \<noteq> ''number'' \<or> isNaN weight then
                (json_status (error_body ''Weight must be a valid number'') 400, s)
              else if \<not> truthy date then
                (json_status (error_body ''Date is required'') 400, s)
              else
                (case date_param drv date of
                   None \<Rightarrow> failed
                 | Some d \<Rightarrow>
                    (case addWeight now (number_value weight) d s of
                       Inl err \<Rightarrow> failed
                     | Inr (result, s') \<Rightarrow>
                        (json (JObject (spread [(''success'', JBool True)] result)), s'))))))"

text \<open>
  \<^verbatim>\<open>
  export async function DELETE({ request }) {
    try {
      const { id, deleteAll } = await request.json();
      if (deleteAll === true) {
        const result = deleteAllWeights();
        return json({ success: true, deleted: result.changes });
      }
      if (typeof id !== 'number' || isNaN(id)) {
        return json({ error: 'ID must be a valid number' }, { status: 400 });
      }
      const result = deleteWeight(id);
      if (result.changes === 0) {
        return json({ error: 'Entry not found' }, { status: 404 });
      }
      return json({ success: true });
    } catch (error) {
      console.error('Error deleting weight:', error);
      return json({ error: 'Failed to delete weight' }, { status: 500 });
    }
  }
  \<close>
\<close>

definition DELETE :: "jsval option \<Rightarrow> db \<Rightarrow> response \<times> db" where
  "DELETE request s =
     (let failed = (json_status (error_body ''Failed to delete weight'') 500, s) in
      case request of
        None \<Rightarrow> failed
      | Some parsed \<Rightarrow>
         (case destructure parsed of
            None \<Rightarrow> failed
          | Some field \<Rightarrow>
             (let id = field ''id''; deleteAll = field ''deleteAll'' in
              if strict_eq deleteAll (JBool True) then
                (case deleteAllWeights s of
                   (result, s') \<Rightarrow>
                     (json (JObject [(''success'', JBool True),
                                     (''deleted'', get_prop result ''changes'')]), s'))
              else if typeof id \<noteq> ''number'' \<or> isNaN id then
                (json_status (error_body ''ID must be a valid number'') 400, s)
              else
                (case deleteWeight (number_value id) s of
                   (result, s') \<Rightarrow>
                     if strict_eq (get_prop result ''changes'') (JNumber (Num 0)) then
                       (json_status (error_body ''Entry not found'') 404, s')
                     else (json (JObject [(''success'', JBool True)]), s')))))"

section \<open>Sequences of calls\<close>

text \<open>
  A call of \<^verbatim>\<open>addWeight\<close> is the time it is made at, the weight and the date. A call that
  throws leaves the table as it was, and the next call runs on that table.
\<close>

definition upsert_step :: "string \<times> jsnum \<times> string \<Rightarrow> db \<Rightarrow> db" where
  "upsert_step c s =
     (case c of (now, w, d) \<Rightarrow>
        (case addWeight now w d s of Inl err \<Rightarrow> s | Inr (result, s') \<Rightarrow> s'))"

definition run_upserts :: "(string \<times> jsnum \<times> string) list \<Rightarrow> db \<Rightarrow> db" where
  "run_upserts cs s = fold upsert_step cs s"

text \<open>A sequence of create requests, each with the time it arrives at.\<close>

definition run_posts ::
  "(jsval \<Rightarrow> string option) \<Rightarrow> (string \<times> jsval option) list \<Rightarrow> db \<Rightarrow> db" where
  "run_posts drv reqs s = fold (\<lambda>(now, request) s'. snd (POST drv now request s')) reqs s"

section \<open>Facts about the statements\<close>

lemma fold_max_ge: "(a::int) \<le> fold max xs a"
  by (induction xs arbitrary: a) (auto intro: order_trans[OF max.cobounded2])

lemma fold_max_mem: "(x::int) \<in> set xs \<Longrightarrow> x \<le> fold max xs a"
proof (induction xs arbitrary: a)
  case Nil
  then show ?case by simp
next
  case (Cons y ys)
  show ?case
  proof (cases "x = y")
    case True
    have "x \<le> max y a" using True by simp
    also have "\<dots> \<le> fold max ys (max y a)" by (rule fold_max_ge)
    finally show ?thesis by simp
  next
    case False
    with Cons.prems have "x \<in> set ys" by simp
    then show ?thesis using Cons.IH by simp
  qed
qed

lemma next_rowid_unused: "next_rowid s \<notin> set (map row_id (rows s))"
proof
  assume "next_rowid s \<in> set (map row_id (rows s))"
  then have "next_rowid s \<le> fold max (map row_id (rows s)) (seq s)" by (rule fold_max_mem)
  then show False by (simp add: next_rowid_def)
qed

lemma addWeight_fresh:
  "w \<noteq> NaN \<Longrightarrow> d \<notin> set (map date (rows s)) \<Longrightarrow>
   addWeight now w d s =
     Inr (JObject [(''success'', JBool True), (''id'', js_int (next_rowid s))],
          \<lparr>rows = rows s @ [\<lparr>row_id = next_rowid s, weight = w, date = d, created_at = now\<rparr>],
           seq = next_rowid s\<rparr>)"
  by (simp add: addWeight_def sql_insert_def Let_def)

lemma addWeight_existing:
  "w \<noteq> NaN \<Longrightarrow> d \<in> set (map date (rows s)) \<Longrightarrow>
   addWeight now w d s =
     Inr (JObject [(''success'', JBool True), (''updated'', JBool True)],
          s\<lparr>rows := map (\<lambda>r. if date r = d then r\<lparr>weight := w\<rparr> else r) (rows s)\<rparr>)"
  by (simp add: addWeight_def sql_insert_def sql_update_by_date_def Let_def)

lemma addWeight_NaN: "addWeight now NaN d s = Inl (SqliteError ''SQLITE_CONSTRAINT_NOTNULL'')"
  by (simp add: addWeight_def sql_insert_def)

section \<open>The scenario of the specification\<close>

text \<open>
  The model run on the example of the specification: two writes for 2024-01-01 and one
  for 2023-12-31, the listing, and the deletion of the entry with id 1.
\<close>

lemma scenario_upserts:
  "run_upserts [(''t1'', Num 75.5, ''2024-01-01''), (''t2'', Num 76, ''2024-01-01''),
                (''t3'', Num 74, ''2023-12-31'')] empty_db =
     \<lparr>rows = [\<lparr>row_id = 1, weight = Num 76, date = ''2024-01-01'', created_at = ''t1''\<rparr>,
              \<lparr>row_id = 2, weight = Num 74, date = ''2023-12-31'', created_at = ''t3''\<rparr>],
      seq = 2\<rparr>"
  by (simp add: run_upserts_def upsert_step_def addWeight_def sql_insert_def
      sql_update_by_date_def next_rowid_def empty_db_def)

lemma scenario_listAll:
  "getAllWeights
     \<lparr>rows = [\<lparr>row_id = 1, weight = Num 76, date = ''2024-01-01'', created_at = ''t1''\<rparr>,
              \<lparr>row_id = 2, weight = Num 74, date = ''2023-12-31'', created_at = ''t3''\<rparr>],
      seq = 2\<rparr> =
     [(2, Num 74, ''2023-12-31''), (1, Num 76, ''2024-01-01'')]"
  by (simp add: getAllWeights_def)

lemma scenario_delete:
  "deleteWeight (Num 1)
     \<lparr>rows = [\<lparr>row_id = 1, weight = Num 76, date = ''2024-01-01'', created_at = ''t1''\<rparr>,
              \<lparr>row_id = 2, weight = Num 74, date = ''2023-12-31'', created_at = ''t3''\<rparr>],
      seq = 2\<rparr> =
     (JObject [(''success'', JBool True), (''changes'', JNumber (Num 1))],
      \<lparr>rows = [\<lparr>row_id = 2, weight = Num 74, date = ''2023-12-31'', created_at = ''t3''\<rparr>],
       seq = 2\<rparr>)"
  by (simp add: deleteWeight_def sql_delete_by_id_def js_nat_def)

section \<open>The upsert\<close>

text \<open>
  Claim C1. For every weight \<open>w\<close> (a number the column can hold, that is any number but
  NaN) and every date \<open>d\<close>: when no row has the date \<open>d\<close>, \<open>addWeight\<close> succeeds, the
  table is the old one with one row appended (so the count grows by exactly one) and the
  new row has an id no row had; when a row has the date \<open>d\<close>, \<open>addWeight\<close> succeeds, the
  count is unchanged, the ids, the dates and the \<open>created_at\<close> values of all rows are
  unchanged, and the weight of the row with date \<open>d\<close> is \<open>w\<close> while every other weight is
  as before.
\<close>

theorem addWeight_upsert:
  assumes "w \<noteq> NaN"
  shows "(d \<notin> set (map date (rows s)) \<longrightarrow>
           (\<exists>res s'. addWeight now w d s = Inr (res, s') \<and>
              length (rows s') = length (rows s) + 1 \<and>
              rows s' = rows s @ [\<lparr>row_id = next_rowid s, weight = w, date = d, created_at = now\<rparr>] \<and>
              next_rowid s \<notin> set (map row_id (rows s)))) \<and>
         (d \<in> set (map date (rows s)) \<longrightarrow>
           (\<exists>res s'. addWeight now w d s = Inr (res, s') \<and>
              length (rows s') = length (rows s) \<and>
              map row_id (rows s') = map row_id (rows s) \<and>
              map created_at (rows s') = map created_at (rows s) \<and>
              map date (rows s') = map date (rows s) \<and>
              map weight (rows s') = map (\<lambda>r. if date r = d then w else weight r) (rows s)))"
proof (intro conjI impI)
  assume fresh: "d \<notin> set (map date (rows s))"
  show "\<exists>res s'. addWeight now w d s = Inr (res, s') \<and>
              length (rows s') = length (rows s) + 1 \<and>
              rows s' = rows s @ [\<lparr>row_id = next_rowid s, weight = w, date = d, created_at = now\<rparr>] \<and>
              next_rowid s \<notin> set (map row_id (rows s))"
    using addWeight_fresh[OF assms fresh, of now] next_rowid_unused[of s] by simp
next
  assume ex: "d \<in> set (map date (rows s))"
  show "\<exists>res s'. addWeight now w d s = Inr (res, s') \<and>
              length (rows s') = length (rows s) \<and>
              map row_id (rows s') = map row_id (rows s) \<and>
              map created_at (rows s') = map created_at (rows s) \<and>
              map date (rows s') = map date (rows s) \<and>
              map weight (rows s') = map (\<lambda>r. if date r = d then w else weight r) (rows s)"
    using addWeight_existing[OF assms ex, of now] by (simp add: comp_def)
qed


theorem addWeight_upsert_witness:
  "Num 76 \<noteq> NaN \<and>
   ''2024-01-01'' \<notin> set (map date (rows empty_db)) \<and>
   (\<exists>res s'. addWeight ''t1'' (Num 76) ''2024-01-01'' empty_db = Inr (res, s') \<and>
      length (rows s') = length (rows empty_db) + 1 \<and>
      rows s' = rows empty_db @
        [\<lparr>row_id = next_rowid empty_db, weight = Num 76, date = ''2024-01-01'',
          created_at = ''t1''\<rparr>] \<and>
      next_rowid empty_db \<notin> set (map row_id (rows empty_db))) \<and>
   ''2024-01-01'' \<in> set (map date (rows
      \<lparr>rows = [\<lparr>row_id = 1, weight = Num 75, date = ''2024-01-01'', created_at = ''t0''\<rparr>],
       seq = 1\<rparr>)) \<and>
   (\<exists>res s'. addWeight ''t1'' (Num 76) ''2024-01-01''
      \<lparr>rows = [\<lparr>row_id = 1, weight = Num 75, date = ''2024-01-01'', created_at = ''t0''\<rparr>],
       seq = 1\<rparr> = Inr (res, s') \<and>
      length (rows s') = 1 \<and>
      map row_id (rows s') = [1] \<and>
      map created_at (rows s') = [''t0''] \<and>
      map date (rows s') = [''2024-01-01''] \<and>
      map weight (rows s') = [Num 76])"
proof -
  have h: "Num 76 \<noteq> NaN" by simp
  have fresh: "''2024-01-01'' \<notin> set (map date (rows empty_db))"
    by (simp add: empty_db_def)
  have known: "''2024-01-01'' \<in> set (map date (rows
      \<lparr>rows = [\<lparr>row_id = 1, weight = Num 75, date = ''2024-01-01'', created_at = ''t0''\<rparr>],
       seq = 1\<rparr>))"
    by simp
  from addWeight_upsert [OF h, of "''2024-01-01''" empty_db "''t1''"] fresh
  have a: "\<exists>res s'. addWeight ''t1'' (Num 76) ''2024-01-01'' empty_db = Inr (res, s') \<and>
      length (rows s') = length (rows empty_db) + 1 \<and>
      rows s' = rows empty_db @
        [\<lparr>row_id = next_rowid empty_db, weight = Num 76, date = ''2024-01-01'',
          created_at = ''t1''\<rparr>] \<and>
      next_rowid empty_db \<notin> set (map row_id (rows empty_db))"
    by (rule conjunct1 [THEN mp])
  from addWeight_upsert [OF h, of "''2024-01-01''"
      "\<lparr>rows = [\<lparr>row_id = 1, weight = Num 75, date = ''2024-01-01'', created_at = ''t0''\<rparr>],
        seq = 1\<rparr>" "''t1''"] known
  have b: "\<exists>res s'. addWeight ''t1'' (Num 76) ''2024-01-01''
      \<lparr>rows = [\<lparr>row_id = 1, weight = Num 75, date = ''2024-01-01'', created_at = ''t0''\<rparr>],
       seq = 1\<rparr> = Inr (res, s') \<and>
      length (rows s') = 1 \<and>
      map row_id (rows s') = [1] \<and>
      map created_at (rows s') = [''t0''] \<and>
      map date (rows s') = [''2024-01-01''] \<and>
      map weight (rows s') = [Num 76]"
    by simp
  from h fresh a known b show ?thesis by (intro conjI)
qed

section \<open>One row per date, listed in ascending order\<close>

lemma map_date_set_weight:
  "map date (map (\<lambda>r. if date r = d then r\<lparr>weight := w\<rparr> else r) xs) = map date xs"
  by (induction xs) auto

lemma addWeight_distinct_dates:
  assumes "distinct (map date (rows s))" and "addWeight now w d s = Inr (res, s')"
  shows "distinct (map date (rows s'))"
proof (cases "w = NaN")
  case True
  with assms(2) show ?thesis by (simp add: addWeight_NaN)
next
  case False
  show ?thesis
  proof (cases "d \<in> set (map date (rows s))")
    case True
    from assms(2) addWeight_existing[OF False True, of now]
    have "rows s' = map (\<lambda>r. if date r = d then r\<lparr>weight := w\<rparr> else r) (rows s)" by auto
    then show ?thesis using assms(1) by (simp only: map_date_set_weight)
  next
    case fresh: False
    with assms addWeight_fresh[OF False fresh, of now] show ?thesis by auto
  qed
qed

lemma upsert_step_distinct_dates:
  "distinct (map date (rows s)) \<Longrightarrow> distinct (map date (rows (upsert_step c s)))"
  by (auto simp: upsert_step_def split: prod.splits sum.splits dest: addWeight_distinct_dates)

lemma run_upserts_distinct_dates:
  "distinct (map date (rows s)) \<Longrightarrow> distinct (map date (rows (run_upserts cs s)))"
  unfolding run_upserts_def
  by (induction cs arbitrary: s) (simp_all add: upsert_step_distinct_dates)

lemma getAllWeights_dates:
  "map (\<lambda>(i, w, d). d) (getAllWeights s) = map date (sort_key date (rows s))"
  by (simp add: getAllWeights_def comp_def)

lemma getAllWeights_strict:
  assumes "distinct (map date (rows s))"
  shows "sorted_wrt (<) (map (\<lambda>(i, w, d). d) (getAllWeights s))"
proof -
  have "distinct (map date (sort_key date (rows s)))"
    using assms by (simp add: distinct_map)
  moreover have "sorted (map date (sort_key date (rows s)))" by simp
  ultimately show ?thesis
    by (simp add: getAllWeights_dates strict_sorted_iff)
qed

text \<open>
  Claim C2. After any finite sequence of \<open>addWeight\<close> calls on the empty table, in
  whatever order and whether or not some of them throw, the dates of the list that
  \<open>getAllWeights\<close> returns are pairwise distinct and strictly ascending.
\<close>

theorem run_upserts_listAll:
  "distinct (map (\<lambda>(i, w, d). d) (getAllWeights (run_upserts cs empty_db))) \<and>
   sorted_wrt (<) (map (\<lambda>(i, w, d). d) (getAllWeights (run_upserts cs empty_db)))"
proof -
  have "distinct (map date (rows (run_upserts cs empty_db)))"
    by (rule run_upserts_distinct_dates) (simp add: empty_db_def)
  then have "sorted_wrt (<) (map (\<lambda>(i, w, d). d) (getAllWeights (run_upserts cs empty_db)))"
    by (rule getAllWeights_strict)
  then show ?thesis by (simp add: strict_sorted_iff)
qed

section \<open>What \<open>addWeight\<close> returns\<close>




section \<open>Updating a row that does not exist\<close>

text \<open>
  Claim C6. For every id that no row matches and every weight \<open>w\<close> (NaN included),
  \<open>updateWeight\<close> returns \<^verbatim>\<open>{ success: true, changes: 0 }\<close> and the database is exactly
  the one before: no row is created, and every row keeps its id, weight, date and
  \<open>created_at\<close>.
\<close>

theorem updateWeight_missing_id:
  assumes "list_all (\<lambda>r. \<not> id_matches i r) (rows s)"
  shows "updateWeight i w s =
           Inr (JObject [(''success'', JBool True), (''changes'', JNumber (Num 0))], s)"
proof -
  from assms have none: "filter (id_matches i) (rows s) = []"
    by (simp add: list_all_iff filter_empty_conv)
  from assms have same: "map (\<lambda>r. if id_matches i r then r\<lparr>weight := w\<rparr> else r) (rows s) = rows s"
    by (simp add: list_all_iff map_idI)
  show ?thesis
    by (simp add: updateWeight_def sql_update_by_id_def none same js_nat_def)
qed

theorem updateWeight_missing_id_witness:
  "list_all (\<lambda>r. \<not> id_matches (Num 999) r)
     (rows \<lparr>rows = [\<lparr>row_id = 1, weight = Num 76, date = ''2024-01-01'', created_at = ''t0''\<rparr>,
                    \<lparr>row_id = 2, weight = Num 74, date = ''2023-12-31'', created_at = ''t1''\<rparr>],
            seq = 2\<rparr>) \<and>
   updateWeight (Num 999) (Num 80)
     \<lparr>rows = [\<lparr>row_id = 1, weight = Num 76, date = ''2024-01-01'', created_at = ''t0''\<rparr>,
              \<lparr>row_id = 2, weight = Num 74, date = ''2023-12-31'', created_at = ''t1''\<rparr>],
      seq = 2\<rparr> =
   Inr (JObject [(''success'', JBool True), (''changes'', JNumber (Num 0))],
     \<lparr>rows = [\<lparr>row_id = 1, weight = Num 76, date = ''2024-01-01'', created_at = ''t0''\<rparr>,
              \<lparr>row_id = 2, weight = Num 74, date = ''2023-12-31'', created_at = ''t1''\<rparr>],
      seq = 2\<rparr>)"
proof -
  have h: "list_all (\<lambda>r. \<not> id_matches (Num 999) r)
     (rows \<lparr>rows = [\<lparr>row_id = 1, weight = Num 76, date = ''2024-01-01'', created_at = ''t0''\<rparr>,
                    \<lparr>row_id = 2, weight = Num 74, date = ''2023-12-31'', created_at = ''t1''\<rparr>],
            seq = 2\<rparr>)"
    by simp
  from h updateWeight_missing_id [OF h, of "Num 80"] show ?thesis by (intro conjI)
qed

section \<open>Deleting everything\<close>

text \<open>
  Claim C7. \<open>deleteAllWeights\<close> is total (the statement has no constraint to violate, so
  nothing is thrown); it returns the number of rows as \<open>changes\<close>, the list
  \<open>getAllWeights\<close> returns afterwards is empty, and on an empty table the result is
  \<^verbatim>\<open>{ success: true, changes: 0 }\<close> with the database unchanged.
\<close>

theorem deleteAllWeights_changes:
  "fst (deleteAllWeights s) =
     JObject [(''success'', JBool True), (''changes'', js_nat (length (rows s)))] \<and>
   getAllWeights (snd (deleteAllWeights s)) = [] \<and>
   (rows s = [] \<longrightarrow>
      deleteAllWeights s =
        (JObject [(''success'', JBool True), (''changes'', JNumber (Num 0))], s))"
  by (simp add: deleteAllWeights_def sql_delete_all_def getAllWeights_def js_nat_def)

theorem deleteAllWeights_changes_witness:
  "rows empty_db = [] \<and>
   deleteAllWeights empty_db =
     (JObject [(''success'', JBool True), (''changes'', JNumber (Num 0))], empty_db) \<and>
   fst (deleteAllWeights
     \<lparr>rows = [\<lparr>row_id = 1, weight = Num 76, date = ''2024-01-01'', created_at = ''t0''\<rparr>,
              \<lparr>row_id = 2, weight = Num 74, date = ''2023-12-31'', created_at = ''t1''\<rparr>],
      seq = 2\<rparr>) = JObject [(''success'', JBool True), (''changes'', JNumber (Num 2))] \<and>
   getAllWeights (snd (deleteAllWeights
     \<lparr>rows = [\<lparr>row_id = 1, weight = Num 76, date = ''2024-01-01'', created_at = ''t0''\<rparr>,
              \<lparr>row_id = 2, weight = Num 74, date = ''2023-12-31'', created_at = ''t1''\<rparr>],
      seq = 2\<rparr>)) = []"
  using deleteAllWeights_changes [of empty_db]
    deleteAllWeights_changes [of
     "\<lparr>rows = [\<lparr>row_id = 1, weight = Num 76, date = ''2024-01-01'', created_at = ''t0''\<rparr>,
              \<lparr>row_id = 2, weight = Num 74, date = ''2023-12-31'', created_at = ''t1''\<rparr>],
      seq = 2\<rparr>"]
  by (simp add: empty_db_def js_nat_def)

section \<open>The latest entry\<close>

lemma sorted_rev_head:
  assumes "sorted (map f xs)" and "rev xs = r # rest"
  shows "\<forall>x \<in> set xs. f x \<le> f r"
proof -
  from assms(1) have "sorted_wrt (\<lambda>x y. f y \<le> f x) (rev xs)"
    by (simp add: sorted_wrt_rev sorted_wrt_map)
  with assms(2) have "\<forall>y \<in> set rest. f y \<le> f r" by simp
  moreover from assms(2) have "set xs = insert r (set rest)"
    by (metis list.simps(15) set_rev)
  ultimately show ?thesis by simp
qed

text \<open>
  Claim C8. In every state of the table, \<open>getLatestWeight\<close> returns nothing exactly when
  the table is empty, and a row it returns is a row of the table whose date is greater than
  or equal to the date of every row.
\<close>

theorem getLatestWeight_max:
  "(getLatestWeight s = None \<longleftrightarrow> rows s = []) \<and>
   (\<forall>r. getLatestWeight s = Some r \<longrightarrow>
      r \<in> set (rows s) \<and> (\<forall>x \<in> set (rows s). date x \<le> date r))"
proof (cases "rev (sort_key date (rows s))")
  case Nil
  then have "sort_key date (rows s) = []" by simp
  then have "length (rows s) = 0" by (metis length_sort list.size(3))
  then have "rows s = []" by simp
  then show ?thesis by (simp add: getLatestWeight_def)
next
  case (Cons r rest)
  have srt: "sorted (map date (sort_key date (rows s)))" by simp
  from sorted_rev_head [OF srt Cons] have top: "\<forall>x \<in> set (rows s). date x \<le> date r"
    by simp
  from Cons have "r \<in> set (rev (sort_key date (rows s)))" by simp
  then have mem: "r \<in> set (rows s)" by simp
  then have "rows s \<noteq> []" by auto
  with Cons top mem show ?thesis by (simp add: getLatestWeight_def)
qed


theorem getLatestWeight_max_witness:
  "getLatestWeight
     \<lparr>rows = [\<lparr>row_id = 1, weight = Num 76, date = ''2024-01-01'', created_at = ''t0''\<rparr>,
              \<lparr>row_id = 2, weight = Num 74, date = ''2023-12-31'', created_at = ''t1''\<rparr>],
      seq = 2\<rparr> =
     Some \<lparr>row_id = 1, weight = Num 76, date = ''2024-01-01'', created_at = ''t0''\<rparr> \<and>
   \<lparr>row_id = 1, weight = Num 76, date = ''2024-01-01'', created_at = ''t0''\<rparr> \<in> set (rows
     \<lparr>rows = [\<lparr>row_id = 1, weight = Num 76, date = ''2024-01-01'', created_at = ''t0''\<rparr>,
              \<lparr>row_id = 2, weight = Num 74, date = ''2023-12-31'', created_at = ''t1''\<rparr>],
      seq = 2\<rparr>) \<and>
   list_all
     (\<lambda>x. date x \<le> date \<lparr>row_id = 1, weight = Num 76, date = ''2024-01-01'', created_at = ''t0''\<rparr>)
     (rows
       \<lparr>rows = [\<lparr>row_id = 1, weight = Num 76, date = ''2024-01-01'', created_at = ''t0''\<rparr>,
                \<lparr>row_id = 2, weight = Num 74, date = ''2023-12-31'', created_at = ''t1''\<rparr>],
        seq = 2\<rparr>) \<and>
   rows empty_db = [] \<and> getLatestWeight empty_db = None"
proof -
  have latest: "getLatestWeight
     \<lparr>rows = [\<lparr>row_id = 1, weight = Num 76, date = ''2024-01-01'', created_at = ''t0''\<rparr>,
              \<lparr>row_id = 2, weight = Num 74, date = ''2023-12-31'', created_at = ''t1''\<rparr>],
      seq = 2\<rparr> =
     Some \<lparr>row_id = 1, weight = Num 76, date = ''2024-01-01'', created_at = ''t0''\<rparr>"
    by (simp add: getLatestWeight_def)
  have none: "rows empty_db = []" by (simp add: empty_db_def)
  note a = getLatestWeight_max [THEN conjunct2, rule_format, OF latest]
  note b = getLatestWeight_max [of empty_db, THEN conjunct1, THEN iffD2, OF none]
  from latest a none b show ?thesis by (simp only: list_all_iff) simp
qed

section \<open>The delete handler\<close>

lemma strict_eq_true: "strict_eq v (JBool True) \<longleftrightarrow> v = JBool True"
  by (cases v) auto

lemma strict_eq_changes: "strict_eq (js_nat n) (JNumber (Num 0)) \<longleftrightarrow> n = 0"
  by (simp add: js_nat_def)

lemma deleteWeight_eq:
  "deleteWeight i s =
     (JObject [(''success'', JBool True),
               (''changes'', js_nat (length (filter (id_matches i) (rows s))))],
      s\<lparr>rows := filter (\<lambda>r. \<not> id_matches i r) (rows s)\<rparr>)"
  by (simp add: deleteWeight_def sql_delete_by_id_def)

text \<open>
  Claim C10. Whenever the \<open>deleteAll\<close> field of a request is anything but the boolean
  true (absent, a string, a number, an object, false), \<open>DELETE\<close> treats the request as
  a single delete: an \<open>id\<close> that is not a number, or is NaN, is answered with 400 and
  the database is untouched; otherwise exactly the rows with that id are removed (404 when
  there is none). In both cases every row whose id is not the requested one is still in the
  table, so nothing is cleared in bulk.
\<close>

theorem DELETE_single_unless_true:
  assumes "destructure parsed = Some field" and "field ''deleteAll'' \<noteq> JBool True"
  shows "DELETE (Some parsed) s =
           (if typeof (field ''id'') \<noteq> ''number'' \<or> isNaN (field ''id'')
            then (json_status (error_body ''ID must be a valid number'') 400, s)
            else (if list_all (\<lambda>r. \<not> id_matches (number_value (field ''id'')) r) (rows s)
                  then json_status (error_body ''Entry not found'') 404
                  else json (JObject [(''success'', JBool True)]),
                  s\<lparr>rows := filter (\<lambda>r. \<not> id_matches (number_value (field ''id'')) r) (rows s)\<rparr>)) \<and>
         (\<forall>r \<in> set (rows s). \<not> id_matches (number_value (field ''id'')) r \<longrightarrow>
            r \<in> set (rows (snd (DELETE (Some parsed) s))))"
proof -
  have none: "(filter (id_matches i) xs = []) = list_all (\<lambda>r. \<not> id_matches i r) xs" for i xs
    by (simp add: list_all_iff filter_empty_conv)
  have eq: "DELETE (Some parsed) s =
           (if typeof (field ''id'') \<noteq> ''number'' \<or> isNaN (field ''id'')
            then (json_status (error_body ''ID must be a valid number'') 400, s)
            else (if list_all (\<lambda>r. \<not> id_matches (number_value (field ''id'')) r) (rows s)
                  then json_status (error_body ''Entry not found'') 404
                  else json (JObject [(''success'', JBool True)]),
                  s\<lparr>rows := filter (\<lambda>r. \<not> id_matches (number_value (field ''id'')) r) (rows s)\<rparr>))"
    using assms
    by (simp add: DELETE_def Let_def strict_eq_true deleteWeight_eq get_prop_def
        strict_eq_changes none)
  show ?thesis
    by (rule conjI, rule eq) (simp add: eq)
qed


theorem DELETE_single_unless_true_witness:
  "destructure (JObject [(''id'', JNumber (Num 1)), (''deleteAll'', JString ''true'')]) =
     Some (get_prop (JObject [(''id'', JNumber (Num 1)), (''deleteAll'', JString ''true'')])) \<and>
   get_prop (JObject [(''id'', JNumber (Num 1)), (''deleteAll'', JString ''true'')]) ''deleteAll''
     \<noteq> JBool True \<and>
   DELETE (Some (JObject [(''id'', JNumber (Num 1)), (''deleteAll'', JString ''true'')]))
     \<lparr>rows = [\<lparr>row_id = 1, weight = Num 76, date = ''2024-01-01'', created_at = ''t0''\<rparr>,
              \<lparr>row_id = 2, weight = Num 74, date = ''2023-12-31'', created_at = ''t1''\<rparr>],
      seq = 2\<rparr> =
     (json (JObject [(''success'', JBool True)]),
      \<lparr>rows = [\<lparr>row_id = 2, weight = Num 74, date = ''2023-12-31'', created_at = ''t1''\<rparr>],
       seq = 2\<rparr>)"
proof -
  have h1: "destructure (JObject [(''id'', JNumber (Num 1)), (''deleteAll'', JString ''true'')]) =
     Some (get_prop (JObject [(''id'', JNumber (Num 1)), (''deleteAll'', JString ''true'')]))"
    by simp
  have h2: "get_prop (JObject [(''id'', JNumber (Num 1)), (''deleteAll'', JString ''true'')])
     ''deleteAll'' \<noteq> JBool True"
    by (simp add: get_prop_def)
  have "DELETE (Some (JObject [(''id'', JNumber (Num 1)), (''deleteAll'', JString ''true'')]))
     \<lparr>rows = [\<lparr>row_id = 1, weight = Num 76, date = ''2024-01-01'', created_at = ''t0''\<rparr>,
              \<lparr>row_id = 2, weight = Num 74, date = ''2023-12-31'', created_at = ''t1''\<rparr>],
      seq = 2\<rparr> =
     (json (JObject [(''success'', JBool True)]),
      \<lparr>rows = [\<lparr>row_id = 2, weight = Num 74, date = ''2023-12-31'', created_at = ''t1''\<rparr>],
       seq = 2\<rparr>)"
    using DELETE_single_unless_true [OF h1 h2, THEN conjunct1, of
      "\<lparr>rows = [\<lparr>row_id = 1, weight = Num 76, date = ''2024-01-01'', created_at = ''t0''\<rparr>,
              \<lparr>row_id = 2, weight = Num 74, date = ''2023-12-31'', created_at = ''t1''\<rparr>],
      seq = 2\<rparr>"]
    by (simp add: get_prop_def)
  with h1 h2 show ?thesis by (intro conjI)
qed

section \<open>The create handler\<close>

text \<open>
  Claim C5 as stated fails: a request whose weight is \<^verbatim>\<open>Infinity\<close> (the JSON literal
  \<^verbatim>\<open>1e999\<close> parses to it) is not a finite number, yet it passes
  \<^verbatim>\<open>typeof weight !== 'number' || isNaN(weight)\<close>, is answered with 200 and is stored.
\<close>

theorem POST_infinite_counterexample:
  "POST strict_driver ''2024-01-01 07:30:00''
     (Some (JObject [(''weight'', JNumber PosInfinity), (''date'', JString ''2024-01-01'')]))
     empty_db =
   (\<lparr>status = 200, body = JObject [(''success'', JBool True), (''id'', JNumber (Num 1))]\<rparr>,
    \<lparr>rows = [\<lparr>row_id = 1, weight = PosInfinity, date = ''2024-01-01'',
              created_at = ''2024-01-01 07:30:00''\<rparr>], seq = 1\<rparr>)"
  by (simp add: POST_def get_prop_def date_param_def addWeight_def sql_insert_def next_rowid_def
      empty_db_def json_def spread_def js_int_def)

lemma addWeight_succeeds:
  assumes "w \<noteq> NaN"
  shows "\<exists>res s'. addWeight now w d s = Inr (res, s') \<and>
           (\<exists>r \<in> set (rows s'). date r = d \<and> weight r = w)"
proof (cases "d \<in> set (map date (rows s))")
  case True
  then obtain r where r: "r \<in> set (rows s)" "date r = d" by auto
  then have "r\<lparr>weight := w\<rparr> \<in> set (map (\<lambda>r. if date r = d then r\<lparr>weight := w\<rparr> else r) (rows s))"
    by force
  moreover have "date (r\<lparr>weight := w\<rparr>) = d \<and> weight (r\<lparr>weight := w\<rparr>) = w"
    using r by simp
  ultimately have "\<exists>x \<in> set (map (\<lambda>r. if date r = d then r\<lparr>weight := w\<rparr> else r) (rows s)).
      date x = d \<and> weight x = w"
    by blast
  with addWeight_existing [OF assms True, of now] show ?thesis by simp
next
  case False
  with addWeight_fresh [OF assms False, of now] show ?thesis by simp
qed

text \<open>
  Claim C5, amended. For every request body that can be destructured: when the weight is
  not of type number or is NaN, \<open>POST\<close> answers 400 and the database is the one before;
  when the weight is a number other than NaN and the date is falsy (absent, null, the empty
  string, false, zero, NaN), it answers 400 and the database is the one before; when the
  weight is a number other than NaN and the date is truthy, the answer and the new database
  are those of the call \<open>addWeight\<close> with that weight and date; and when moreover the
  date is a non-empty string, that call succeeds and \<open>POST\<close> answers with its result.
\<close>

theorem POST_validation:
  assumes "destructure parsed = Some field"
  shows "(typeof (field ''weight'') \<noteq> ''number'' \<or> isNaN (field ''weight'') \<longrightarrow>
            POST drv now (Some parsed) s =
              (json_status (error_body ''Weight must be a valid number'') 400, s)) \<and>
         (typeof (field ''weight'') = ''number'' \<and> \<not> isNaN (field ''weight'') \<and>
          \<not> truthy (field ''date'') \<longrightarrow>
            POST drv now (Some parsed) s =
              (json_status (error_body ''Date is required'') 400, s)) \<and>
         (\<forall>n. field ''weight'' = JNumber n \<and> n \<noteq> NaN \<and> truthy (field ''date'') \<longrightarrow>
            POST drv now (Some parsed) s =
              (case date_param drv (field ''date'') of
                 None \<Rightarrow> (json_status (error_body ''Failed to add weight'') 500, s)
               | Some d \<Rightarrow>
                  (case addWeight now n d s of
                     Inl err \<Rightarrow> (json_status (error_body ''Failed to add weight'') 500, s)
                   | Inr (res, s') \<Rightarrow>
                       (json (JObject (spread [(''success'', JBool True)] res)), s')))) \<and>
         (\<forall>n d. field ''weight'' = JNumber n \<and> n \<noteq> NaN \<and> field ''date'' = JString d \<and> d \<noteq> [] \<longrightarrow>
            (\<exists>res s'. addWeight now n d s = Inr (res, s') \<and>
               POST drv now (Some parsed) s =
                 (json (JObject (spread [(''success'', JBool True)] res)), s')))"
proof (intro conjI allI impI)
  assume "typeof (field ''weight'') \<noteq> ''number'' \<or> isNaN (field ''weight'')"
  with assms show "POST drv now (Some parsed) s =
      (json_status (error_body ''Weight must be a valid number'') 400, s)"
    by (simp add: POST_def Let_def)
next
  assume "typeof (field ''weight'') = ''number'' \<and> \<not> isNaN (field ''weight'') \<and>
          \<not> truthy (field ''date'')"
  with assms show "POST drv now (Some parsed) s =
      (json_status (error_body ''Date is required'') 400, s)"
    by (simp add: POST_def Let_def)
next
  fix n
  assume "field ''weight'' = JNumber n \<and> n \<noteq> NaN \<and> truthy (field ''date'')"
  with assms show "POST drv now (Some parsed) s =
              (case date_param drv (field ''date'') of
                 None \<Rightarrow> (json_status (error_body ''Failed to add weight'') 500, s)
               | Some d \<Rightarrow>
                  (case addWeight now n d s of
                     Inl err \<Rightarrow> (json_status (error_body ''Failed to add weight'') 500, s)
                   | Inr (res, s') \<Rightarrow>
                       (json (JObject (spread [(''success'', JBool True)] res)), s')))"
    by (simp add: POST_def Let_def split: option.splits)
next
  fix n d
  assume a: "field ''weight'' = JNumber n \<and> n \<noteq> NaN \<and> field ''date'' = JString d \<and> d \<noteq> []"
  then have "n \<noteq> NaN" by simp
  from addWeight_succeeds [OF this, of now d s]
  obtain res s' where ok: "addWeight now n d s = Inr (res, s')" by blast
  from assms a ok have "POST drv now (Some parsed) s =
      (json (JObject (spread [(''success'', JBool True)] res)), s')"
    by (simp add: POST_def Let_def date_param_def)
  with ok show "\<exists>res s'. addWeight now n d s = Inr (res, s') \<and>
               POST drv now (Some parsed) s =
                 (json (JObject (spread [(''success'', JBool True)] res)), s')"
    by blast
qed

theorem POST_validation_witness:
  "destructure (JObject [(''weight'', JString ''76''), (''date'', JString ''2024-01-01'')]) =
     Some (get_prop (JObject [(''weight'', JString ''76''), (''date'', JString ''2024-01-01'')])) \<and>
   typeof (get_prop (JObject [(''weight'', JString ''76''), (''date'', JString ''2024-01-01'')])
     ''weight'') \<noteq> ''number'' \<and>
   POST strict_driver ''t1''
     (Some (JObject [(''weight'', JString ''76''), (''date'', JString ''2024-01-01'')])) empty_db =
     (json_status (error_body ''Weight must be a valid number'') 400, empty_db) \<and>
   destructure (JObject [(''weight'', JNumber (Num 76)), (''date'', JString '''')]) =
     Some (get_prop (JObject [(''weight'', JNumber (Num 76)), (''date'', JString '''')])) \<and>
   \<not> truthy (get_prop (JObject [(''weight'', JNumber (Num 76)), (''date'', JString '''')])
     ''date'') \<and>
   POST strict_driver ''t1''
     (Some (JObject [(''weight'', JNumber (Num 76)), (''date'', JString '''')])) empty_db =
     (json_status (error_body ''Date is required'') 400, empty_db) \<and>
   destructure (JObject [(''weight'', JNumber (Num 76)), (''date'', JString ''2024-01-01'')]) =
     Some (get_prop (JObject [(''weight'', JNumber (Num 76)), (''date'', JString ''2024-01-01'')])) \<and>
   Num 76 \<noteq> NaN \<and> ''2024-01-01'' \<noteq> [] \<and>
   (\<exists>res s'. addWeight ''t1'' (Num 76) ''2024-01-01'' empty_db = Inr (res, s') \<and>
      POST strict_driver ''t1''
        (Some (JObject [(''weight'', JNumber (Num 76)), (''date'', JString ''2024-01-01'')]))
        empty_db = (json (JObject (spread [(''success'', JBool True)] res)), s'))"
proof -
  have h1: "destructure (JObject [(''weight'', JString ''76''), (''date'', JString ''2024-01-01'')]) =
     Some (get_prop (JObject [(''weight'', JString ''76''), (''date'', JString ''2024-01-01'')]))"
    by simp
  have a1: "typeof (get_prop (JObject [(''weight'', JString ''76''),
      (''date'', JString ''2024-01-01'')]) ''weight'') \<noteq> ''number''"
    by (simp add: get_prop_def)
  have c1: "POST strict_driver ''t1''
     (Some (JObject [(''weight'', JString ''76''), (''date'', JString ''2024-01-01'')])) empty_db =
     (json_status (error_body ''Weight must be a valid number'') 400, empty_db)"
    using POST_validation [OF h1, of strict_driver "''t1''" empty_db, THEN conjunct1] a1 by blast
  have h2: "destructure (JObject [(''weight'', JNumber (Num 76)), (''date'', JString '''')]) =
     Some (get_prop (JObject [(''weight'', JNumber (Num 76)), (''date'', JString '''')]))"
    by simp
  have a2: "typeof (get_prop (JObject [(''weight'', JNumber (Num 76)), (''date'', JString '''')])
       ''weight'') = ''number'' \<and>
     \<not> isNaN (get_prop (JObject [(''weight'', JNumber (Num 76)), (''date'', JString '''')])
       ''weight'') \<and>
     \<not> truthy (get_prop (JObject [(''weight'', JNumber (Num 76)), (''date'', JString '''')])
       ''date'')"
    by (simp add: get_prop_def)
  have c2: "POST strict_driver ''t1''
     (Some (JObject [(''weight'', JNumber (Num 76)), (''date'', JString '''')])) empty_db =
     (json_status (error_body ''Date is required'') 400, empty_db)"
    using POST_validation [OF h2, of strict_driver "''t1''" empty_db, THEN conjunct2, THEN conjunct1,
        THEN mp, OF a2] .
  have h3: "destructure (JObject [(''weight'', JNumber (Num 76)), (''date'', JString ''2024-01-01'')]) =
     Some (get_prop (JObject [(''weight'', JNumber (Num 76)), (''date'', JString ''2024-01-01'')]))"
    by simp
  have a3: "get_prop (JObject [(''weight'', JNumber (Num 76)), (''date'', JString ''2024-01-01'')])
       ''weight'' = JNumber (Num 76) \<and> Num 76 \<noteq> NaN \<and>
     get_prop (JObject [(''weight'', JNumber (Num 76)), (''date'', JString ''2024-01-01'')])
       ''date'' = JString ''2024-01-01'' \<and> ''2024-01-01'' \<noteq> []"
    by (simp add: get_prop_def)
  have c3: "\<exists>res s'. addWeight ''t1'' (Num 76) ''2024-01-01'' empty_db = Inr (res, s') \<and>
      POST strict_driver ''t1''
        (Some (JObject [(''weight'', JNumber (Num 76)), (''date'', JString ''2024-01-01'')]))
        empty_db = (json (JObject (spread [(''success'', JBool True)] res)), s')"
    using POST_validation [OF h3, of strict_driver "''t1''" empty_db, THEN conjunct2, THEN conjunct2,
        THEN conjunct2, rule_format, OF a3] .
  have n: "Num 76 \<noteq> NaN" and d: "''2024-01-01'' \<noteq> []" by simp_all
  from a2 have a2': "\<not> truthy (get_prop (JObject [(''weight'', JNumber (Num 76)),
      (''date'', JString '''')]) ''date'')" by simp
  from h1 a1 c1 h2 a2' c2 h3 n d c3 show ?thesis by (intro conjI)
qed

section \<open>Weights that reach the table through the create handler\<close>

text \<open>
  Claim C4 as stated fails: a request with the weight \<open>-5\<close> passes the validation of
  \<open>POST\<close>, and the table has no constraint on the sign, so the row is stored.
\<close>

theorem POST_negative_counterexample:
  "POST strict_driver ''2024-01-01 07:30:00''
     (Some (JObject [(''weight'', JNumber (Num (- 5))), (''date'', JString ''2024-01-01'')]))
     empty_db =
   (\<lparr>status = 200, body = JObject [(''success'', JBool True), (''id'', JNumber (Num 1))]\<rparr>,
    \<lparr>rows = [\<lparr>row_id = 1, weight = Num (- 5), date = ''2024-01-01'',
              created_at = ''2024-01-01 07:30:00''\<rparr>], seq = 1\<rparr>)"
  by (simp add: POST_def get_prop_def date_param_def addWeight_def sql_insert_def next_rowid_def
      empty_db_def json_def spread_def js_int_def)

lemma addWeight_no_NaN:
  assumes "list_all (\<lambda>r. weight r \<noteq> NaN) (rows s)" and "addWeight now w d s = Inr (res, s')"
  shows "list_all (\<lambda>r. weight r \<noteq> NaN) (rows s')"
proof (cases "w = NaN")
  case True
  with assms(2) show ?thesis by (simp add: addWeight_NaN)
next
  case False
  show ?thesis
  proof (cases "d \<in> set (map date (rows s))")
    case True
    from assms(2) addWeight_existing [OF False True, of now]
    have "rows s' = map (\<lambda>r. if date r = d then r\<lparr>weight := w\<rparr> else r) (rows s)" by auto
    with assms(1) False show ?thesis by (auto simp: list_all_iff)
  next
    case fresh: False
    from assms(2) addWeight_fresh [OF False fresh, of now]
    have "rows s' = rows s @ [\<lparr>row_id = next_rowid s, weight = w, date = d, created_at = now\<rparr>]"
      by auto
    with assms(1) False show ?thesis by (auto simp: list_all_iff)
  qed
qed

lemma POST_state:
  "snd (POST drv now request s) = s \<or>
   (\<exists>n d res. addWeight now n d s = Inr (res, snd (POST drv now request s)))"
  by (auto simp: POST_def Let_def split: option.splits sum.splits prod.splits)

lemma POST_no_NaN:
  assumes "list_all (\<lambda>r. weight r \<noteq> NaN) (rows s)"
  shows "list_all (\<lambda>r. weight r \<noteq> NaN) (rows (snd (POST drv now request s)))"
  using POST_state [of drv now request s] assms addWeight_no_NaN by metis

lemma run_posts_no_NaN:
  "list_all (\<lambda>r. weight r \<noteq> NaN) (rows s) \<Longrightarrow>
   list_all (\<lambda>r. weight r \<noteq> NaN) (rows (run_posts drv reqs s))"
  unfolding run_posts_def
  by (induction reqs arbitrary: s) (auto simp: POST_no_NaN)

text \<open>
  Claim C4, amended. After any sequence of create requests on the empty table no stored
  weight is NaN; and every number other than NaN (zero, a negative number, an infinity)
  that is posted with a non-empty string date is stored as the weight of the row of that
  date.
\<close>

theorem run_posts_weights:
  "list_all (\<lambda>r. weight r \<noteq> NaN) (rows (run_posts drv reqs empty_db)) \<and>
   (\<forall>n d. n \<noteq> NaN \<and> d \<noteq> [] \<longrightarrow>
      (\<exists>r \<in> set (rows (snd (POST drv now
          (Some (JObject [(''weight'', JNumber n), (''date'', JString d)])) s))).
         date r = d \<and> weight r = n))"
proof (intro conjI allI impI)
  show "list_all (\<lambda>r. weight r \<noteq> NaN) (rows (run_posts drv reqs empty_db))"
    by (rule run_posts_no_NaN) (simp add: empty_db_def)
next
  fix n and d :: string
  assume a: "n \<noteq> NaN \<and> d \<noteq> []"
  then have "n \<noteq> NaN" by simp
  from addWeight_succeeds [OF this, of now d s]
  obtain res s' where ok: "addWeight now n d s = Inr (res, s')"
    and row: "\<exists>r \<in> set (rows s'). date r = d \<and> weight r = n" by blast
  from a ok have "snd (POST drv now
      (Some (JObject [(''weight'', JNumber n), (''date'', JString d)])) s) = s'"
    by (simp add: POST_def Let_def get_prop_def date_param_def)
  with row show "\<exists>r \<in> set (rows (snd (POST drv now
          (Some (JObject [(''weight'', JNumber n), (''date'', JString d)])) s))).
         date r = d \<and> weight r = n"
    by simp
qed


theorem run_posts_weights_witness:
  "list_all (\<lambda>r. weight r \<noteq> NaN)
     (rows (run_posts strict_driver
        [(''t1'', Some (JObject [(''weight'', JNumber NaN), (''date'', JString ''2024-01-01'')])),
         (''t2'', Some (JObject [(''weight'', JNumber (Num 0)), (''date'', JString ''2024-01-02'')]))]
        empty_db)) \<and>
   Num 0 \<noteq> NaN \<and> ''2024-01-02'' \<noteq> [] \<and>
   (\<exists>r \<in> set (rows (snd (POST strict_driver ''t2''
        (Some (JObject [(''weight'', JNumber (Num 0)), (''date'', JString ''2024-01-02'')]))
        empty_db))).
      date r = ''2024-01-02'' \<and> weight r = Num 0)"
proof -
  have a: "Num 0 \<noteq> NaN \<and> ''2024-01-02'' \<noteq> []" by simp
  note inv = run_posts_weights [of strict_driver
        "[(''t1'', Some (JObject [(''weight'', JNumber NaN), (''date'', JString ''2024-01-01'')])),
          (''t2'', Some (JObject [(''weight'', JNumber (Num 0)), (''date'', JString ''2024-01-02'')]))]"
        "''t2''" empty_db, THEN conjunct1]
  note stored = run_posts_weights [of strict_driver "[]" "''t2''" empty_db, THEN conjunct2,
        rule_format, OF a]
  from inv a stored show ?thesis by (intro conjI) simp_all
qed

end
